theory Spec2Isabelle
  imports Main
begin

section \<open>The X402 payment middleware (middleware/x402\_payment.js)\<close>

text \<open>
  The middleware is one JavaScript function that the gateway runs twice for a request:
  once before the upstream is contacted (verification) and once after (settlement).
  It reads the request object, may write \<open>request.ReturnOverrides\<close> (the response
  that the gateway sends instead of proxying) and \<open>request.SetHeaders\<close> (headers
  added to the request), and talks to the facilitator through the host function
  \<open>TykMakeHttpRequest\<close>.

  The model follows the source function by function. A thrown JavaScript exception is
  the left summand of a sum type, carrying the text of the exception. Every call of the
  host function is recorded in a trace, so that "the facilitator is not called" is a
  statement about the trace. The calls of \<open>log\<close> write to the gateway's log only:
  the model drops the line that is written and keeps the evaluation of the argument
  where that can throw, which is where a value that need not be a string is appended to
  the text.
\<close>

subsection \<open>JavaScript values\<close>

text \<open>
  Values as they come out of \<open>JSON.parse\<close> and out of the route configuration, with
  \<open>undefined\<close> for what a missing property reads as and \<open>NaN\<close> for what
  \<open>parseInt\<close> may return. Numbers are integers.
\<close>

datatype jv =
    JUndef
  | JNull
  | JBool bool
  | JNum int
  | JNaN
  | JStr string
  | JArr "jv list"
  | JObj "(string \<times> jv) list"

text \<open>What \<open>!v\<close> negates.\<close>

fun truthy :: "jv \<Rightarrow> bool" where
  "truthy JUndef = False"
| "truthy JNull = False"
| "truthy (JBool b) = b"
| "truthy (JNum n) = (n \<noteq> 0)"
| "truthy JNaN = False"
| "truthy (JStr s) = (s \<noteq> [])"
| "truthy (JArr xs) = True"
| "truthy (JObj kvs) = True"

text \<open>\<open>a || b\<close>: the left operand when it is truthy, the right one otherwise.\<close>

definition js_or :: "jv \<Rightarrow> jv \<Rightarrow> jv" where
  "js_or a b = (if truthy a then a else b)"

fun nullish :: "jv \<Rightarrow> bool" where
  "nullish JUndef = True"
| "nullish JNull = True"
| "nullish v = False"

text \<open>
  \<open>v.k\<close> on a value that is neither \<open>null\<close> nor \<open>undefined\<close>: the own property
  of an object, \<open>undefined\<close> when there is none. Built-in and inherited properties
  (\<open>length\<close>, indices, prototype methods) are not modelled; the code reads none by
  name. An object lists each of its keys once.
\<close>

fun jget :: "jv \<Rightarrow> string \<Rightarrow> jv" where
  "jget (JObj kvs) k = (case map_of kvs k of None \<Rightarrow> JUndef | Some v \<Rightarrow> v)"
| "jget v k = JUndef"

text \<open>
  \<open>v.k\<close> in general: reading a property of \<open>null\<close> or \<open>undefined\<close> throws a
  TypeError. The text of the error is the engine's; the model fixes one.
\<close>

definition type_error :: "string \<Rightarrow> string" where
  "type_error k = ''TypeError: Cannot access member '' @ k @ '' of null or undefined''"

definition member :: "jv \<Rightarrow> string \<Rightarrow> string + jv" where
  "member v k = (if nullish v then Inl (type_error k) else Inr (jget v k))"

text \<open>Sequencing of steps that may throw.\<close>

definition bnd :: "string + 'a \<Rightarrow> ('a \<Rightarrow> string + 'b) \<Rightarrow> string + 'b" where
  "bnd m f = (case m of Inl e \<Rightarrow> Inl e | Inr x \<Rightarrow> f x)"

text \<open>\<open>String.prototype.toLowerCase\<close> on the ASCII letters.\<close>

definition lower_char :: "char \<Rightarrow> char" where
  "lower_char c =
     (case map_of (zip ''ABCDEFGHIJKLMNOPQRSTUVWXYZ'' ''abcdefghijklmnopqrstuvwxyz'') c of
        None \<Rightarrow> c
      | Some d \<Rightarrow> d)"

definition toLowerCase :: "string \<Rightarrow> string" where
  "toLowerCase s = map lower_char s"

subsection \<open>The JavaScript engine and the host\<close>

text \<open>
  The built-ins that the middleware calls are parameters of the model:
  \<^item> \<open>JSON.parse\<close> takes any value (it converts its argument to a string first) and
    either throws a SyntaxError, whose text is the left summand, or returns a value;
  \<^item> \<open>JSON.stringify\<close> does not throw on the values it gets here;
  \<^item> \<open>ToString\<close> is the conversion that \<open>+\<close> applies to a non-string operand; it
    throws a TypeError on an object that has no callable \<open>toString\<close> or
    \<open>valueOf\<close>, such as the one that \<open>{"toString": null}\<close> parses to;
  \<^item> \<open>parseInt\<close> converts its argument to a string first and so can throw as well;
  \<^item> \<open>TykMakeHttpRequest\<close> is the gateway's HTTP client: it returns a string, or
    \<open>undefined\<close> when the request could not be made. The model also allows it to throw.
\<close>

datatype reply = Throws string | Returns jv

record engine =
  JSON_parse :: "jv \<Rightarrow> string + jv"
  JSON_stringify :: "jv \<Rightarrow> string"
  parseInt :: "jv \<Rightarrow> string + jv"
  ToString :: "jv \<Rightarrow> string + string"
  TykMakeHttpRequest :: "string \<Rightarrow> reply"

text \<open>What \<open>"text" + v\<close> appends: a string as it is, any other value converted.\<close>

definition append_value :: "engine \<Rightarrow> jv \<Rightarrow> string + string" where
  "append_value eng v = (case v of JStr s \<Rightarrow> Inr s | _ \<Rightarrow> ToString eng v)"

subsection \<open>The request object\<close>

text \<open>
  The value of a request header: the gateway passes a list of strings; the code also
  accepts a single string (\<open>Array.isArray(header) ? header[0] : header\<close>).
\<close>

datatype header = HList "string list" | HText string

record return_overrides =
  ResponseCode :: int
  ResponseError :: string
  ResponseHeaders :: "(string \<times> string) list"

record request =
  Headers :: "string \<rightharpoonup> header"
  SetHeaders :: "string \<rightharpoonup> jv"
  URL :: string
  Method :: string
  ReturnOverrides :: return_overrides

record session =
  config_data :: jv

text \<open>Truthiness of \<open>request.Headers[k]\<close>: a missing header is \<open>undefined\<close>, an
  array is truthy even when empty, a string is truthy unless empty.\<close>

fun header_truthy :: "header option \<Rightarrow> bool" where
  "header_truthy None = False"
| "header_truthy (Some (HList xs)) = True"
| "header_truthy (Some (HText s)) = (s \<noteq> [])"

text \<open>\<open>header.length\<close> of a header that is there.\<close>

fun header_length :: "header \<Rightarrow> nat" where
  "header_length (HList xs) = length xs"
| "header_length (HText s) = length s"

text \<open>\<open>header[0]\<close>: the first element of a list, the first character of a string,
  \<open>undefined\<close> when there is none.\<close>

fun header_first :: "header \<Rightarrow> jv" where
  "header_first (HList []) = JUndef"
| "header_first (HList (x # xs)) = JStr x"
| "header_first (HText []) = JUndef"
| "header_first (HText (c # cs)) = JStr [c]"

subsection \<open>Configuration constants\<close>

definition FACILITATOR_URL :: string where
  "FACILITATOR_URL = ''https://facilitator.emfi.dev''"

definition MIDDLEWARE_VERSION :: string where
  "MIDDLEWARE_VERSION = ''1.0.0''"

subsection \<open>Utility functions\<close>

text \<open>\<open>getHeaderValue\<close>: \<open>null\<close> for a falsy header, else the first element of a
  list or the string itself.\<close>

fun getHeaderValue :: "header option \<Rightarrow> jv" where
  "getHeaderValue None = JNull"
| "getHeaderValue (Some (HList xs)) = header_first (HList xs)"
| "getHeaderValue (Some (HText s)) = (if s = [] then JNull else JStr s)"

subsection \<open>Facilitator communication\<close>

text \<open>The result object of \<open>callFacilitator\<close>: \<open>{success: false, error}\<close> or
  \<open>{success: true, data}\<close>.\<close>

datatype fac_result = Failure string | Success jv

text \<open>The object that \<open>callFacilitator\<close> serialises and hands to the host.\<close>

definition http_request :: "engine \<Rightarrow> string \<Rightarrow> jv \<Rightarrow> jv" where
  "http_request eng endpoint payload =
     JObj [(''Method'', JStr ''POST''),
           (''Body'', JStr (JSON_stringify eng payload)),
           (''Headers'', JObj [(''Content-Type'', JStr ''application/json'')]),
           (''Domain'', JStr FACILITATOR_URL),
           (''Resource'', JStr endpoint)]"

text \<open>What \<open>callFacilitator\<close> does with the host's answer.\<close>

definition read_response :: "engine \<Rightarrow> reply \<Rightarrow> string + fac_result" where
  "read_response eng rep =
     (case rep of
        Throws e \<Rightarrow> Inl e
      | Returns responseString \<Rightarrow>
          if \<not> truthy responseString then
            Inr (Failure ''Failed to communicate with facilitator (no response)'')
          else
            (case JSON_parse eng responseString of
               Inl e \<Rightarrow> Inr (Failure (''Invalid response from facilitator: '' @ e))
             | Inr response \<Rightarrow>
                 bnd (member response ''Code'') (\<lambda>code.
                   if \<not> truthy code then
                     Inr (Failure ''Invalid response format from facilitator'')
                   else if code \<noteq> JNum 200 then
                     bnd (append_value eng code) (\<lambda>status.
                     bnd (append_value eng (jget response ''Body'')) (\<lambda>body.
                       Inr (Failure (''Facilitator returned status '' @ status
                                     @ '': '' @ body))))
                   else
                     (case JSON_parse eng (jget response ''Body'') of
                        Inl e \<Rightarrow>
                          Inr (Failure (''Failed to parse facilitator response body: '' @ e))
                      | Inr responseBody \<Rightarrow> Inr (Success responseBody)))))"

text \<open>\<open>callFacilitator\<close>: one call of the host, recorded in the trace as the request
  object, and the classified result.\<close>

definition callFacilitator :: "engine \<Rightarrow> string \<Rightarrow> jv \<Rightarrow> jv list \<times> (string + fac_result)" where
  "callFacilitator eng endpoint payload =
     (let httpRequest = http_request eng endpoint payload;
          httpRequestString = JSON_stringify eng httpRequest
      in ([httpRequest], read_response eng (TykMakeHttpRequest eng httpRequestString)))"

text \<open>A trace contains a call of the given endpoint.\<close>

definition invoked :: "string \<Rightarrow> jv list \<Rightarrow> bool" where
  "invoked endpoint tr = list_ex (\<lambda>h. jget h ''Resource'' = JStr endpoint) tr"

subsection \<open>Payment responses\<close>

text \<open>The object literal \<open>paymentInfo\<close> of \<open>requestPayment\<close>. Reading a property of
  the route's payment configuration throws when the configuration is nullish.\<close>

definition paymentInfo :: "request \<Rightarrow> jv \<Rightarrow> string + jv" where
  "paymentInfo request x402Config =
     bnd (member x402Config ''scheme'') (\<lambda>scheme.
       Inr (JObj
         [(''error'', JStr ''Payment Required''),
          (''message'', JStr ''This resource requires a valid X402 payment''),
          (''x402Version'', JNum 1),
          (''paymentRequirements'', JObj
             [(''scheme'', js_or scheme (JStr ''exact'')),
              (''network'', js_or (jget x402Config ''network'') (JStr ''solana-devnet'')),
              (''description'', js_or (jget x402Config ''description'')
                                   (JStr (''Access to '' @ URL request))),
              (''payTo'', jget x402Config ''payTo''),
              (''asset'', jget x402Config ''asset''),
              (''maxAmountRequired'',
                 js_or (jget x402Config ''maxAmountRequired'') (JStr ''1000000'')),
              (''maxTimeoutSeconds'', JNum 60)]),
          (''instructions'', JObj
             [(''step1'', JStr ''Sign a transaction with your wallet''),
              (''step2'',
                 JStr ''Include the signed payment object in the X-Payment-x402 header''),
              (''headerExample'', JStr ''X-Payment-x402: { x402PaymentObject }'')])]))"

definition requestPayment :: "engine \<Rightarrow> request \<Rightarrow> jv \<Rightarrow> string + request" where
  "requestPayment eng request x402Config =
     bnd (paymentInfo request x402Config) (\<lambda>info.
       Inr (request\<lparr>ReturnOverrides :=
         \<lparr>ResponseCode = 402,
          ResponseError = JSON_stringify eng info,
          ResponseHeaders =
            [(''Content-Type'', ''application/json''),
             (''X-Payment-Required'', ''x402''),
             (''X-Payment-Status'', ''required''),
             (''X-Payment-Protocol-Version'', MIDDLEWARE_VERSION)]\<rparr>\<rparr>))"

definition rejectPayment :: "engine \<Rightarrow> request \<Rightarrow> jv \<Rightarrow> request" where
  "rejectPayment eng request reason =
     request\<lparr>ReturnOverrides :=
       \<lparr>ResponseCode = 402,
        ResponseError =
          JSON_stringify eng (JObj [(''error'', JStr ''Payment Invalid''), (''message'', reason)]),
        ResponseHeaders =
          [(''Content-Type'', ''application/json''),
           (''X-Payment-Status'', ''invalid'')]\<rparr>\<rparr>"

subsection \<open>Verification (pre-request phase)\<close>

text \<open>Step 1 of \<open>verifyPayment\<close>:
  \<open>request.Headers["X-Payment-x402"] || request.Headers["X-Payment-X402"]\<close>.\<close>

definition paymentHeader :: "request \<Rightarrow> header option" where
  "paymentHeader request =
     (if header_truthy (Headers request ''X-Payment-x402'')
      then Headers request ''X-Payment-x402''
      else Headers request ''X-Payment-X402'')"

text \<open>Step 2, the test \<open>!paymentHeader || paymentHeader.length === 0\<close>.\<close>

definition no_payment :: "header option \<Rightarrow> bool" where
  "no_payment h =
     (\<not> header_truthy h \<or> (case h of None \<Rightarrow> False | Some x \<Rightarrow> header_length x = 0))"

text \<open>Step 3, \<open>Array.isArray(paymentHeader) ? paymentHeader[0] : paymentHeader\<close>.\<close>

fun rawPayment :: "header option \<Rightarrow> jv" where
  "rawPayment None = JUndef"
| "rawPayment (Some (HList xs)) = header_first (HList xs)"
| "rawPayment (Some (HText s)) = JStr s"

text \<open>Step 4, the payload of the verify call. The properties are read in the order of
  the object literal; the first read of a nullish object throws, and so can
  \<open>parseInt\<close>.\<close>

definition verify_payload :: "engine \<Rightarrow> jv \<Rightarrow> jv \<Rightarrow> string + jv" where
  "verify_payload eng x402Config paymentProof =
     bnd (member x402Config ''network'') (\<lambda>network.
     bnd (member paymentProof ''transaction'') (\<lambda>transaction.
     bnd (parseInt eng (jget x402Config ''maxAmountRequired'')) (\<lambda>amount.
       Inr (JObj
         [(''paymentPayload'', JObj
            [(''network'', network),
             (''transaction'',
                js_or (js_or transaction (jget paymentProof ''payload'')) (JStr []))]),
          (''paymentRequirements'', JObj
            [(''network'', jget x402Config ''network''),
             (''kind'', JStr ''spl-token''),
             (''recipient'', jget x402Config ''payTo''),
             (''feePayer'', jget x402Config ''feePayer''),
             (''amount'', amount),
             (''token'', jget x402Config ''asset'')])]))))"

text \<open>Step 6, the metadata headers for the settlement phase.\<close>

definition attach_metadata :: "request \<Rightarrow> jv \<Rightarrow> jv \<Rightarrow> request" where
  "attach_metadata request x402Config verifyBody =
     request\<lparr>SetHeaders := (SetHeaders request)
       (''X-Payment-Valid'' \<mapsto> JStr ''true'',
        ''X-Payment-Network'' \<mapsto> jget x402Config ''network'',
        ''X-Payment-Tx'' \<mapsto> js_or (jget verifyBody ''transaction'') (JStr ''unknown''),
        ''X-Payment-Payer'' \<mapsto> js_or (jget verifyBody ''payer'') (JStr ''anonymous''),
        ''X-Payment-Amount'' \<mapsto> jget x402Config ''maxAmountRequired'',
        ''X-Payment-Token'' \<mapsto> jget x402Config ''asset'',
        ''X-Payment-Recipient'' \<mapsto> jget x402Config ''payTo'')\<rparr>"

text \<open>Steps 5 and 6, on the decoded body of the facilitator's answer. Before the
  payment is rejected, the reason is appended to the text of a log line.\<close>

definition check_validity :: "engine \<Rightarrow> request \<Rightarrow> jv \<Rightarrow> jv \<Rightarrow> string + request" where
  "check_validity eng request x402Config verifyBody =
     bnd (member verifyBody ''isValid'') (\<lambda>isValid.
       if \<not> truthy isValid then
         (let errorMsg = js_or (js_or (jget verifyBody ''error'') (jget verifyBody ''message''))
                               (JStr ''Payment not valid'')
          in bnd (append_value eng errorMsg) (\<lambda>line.
               Inr (rejectPayment eng request errorMsg)))
       else Inr (attach_metadata request x402Config verifyBody))"

text \<open>Steps 4 to 6, once the proof is parsed.\<close>

definition verify_with_facilitator ::
  "engine \<Rightarrow> request \<Rightarrow> jv \<Rightarrow> jv \<Rightarrow> jv list \<times> (string + request)" where
  "verify_with_facilitator eng request x402Config paymentProof =
     (case verify_payload eng x402Config paymentProof of
        Inl e \<Rightarrow> ([], Inl e)
      | Inr payload \<Rightarrow>
          (let (tr, verificationResult) = callFacilitator eng ''/v1/verify'' payload
           in (tr,
               bnd verificationResult (\<lambda>res.
                 case res of
                   Failure err \<Rightarrow> Inr (rejectPayment eng request (JStr err))
                 | Success verifyBody \<Rightarrow> check_validity eng request x402Config verifyBody))))"

text \<open>The body of the \<open>try\<close> block of \<open>verifyPayment\<close>: the trace of host calls and
  either the exception that leaves the block or the request that is returned. The
  request object is written only on the paths that return, so the request at a throw is
  the one that came in.\<close>

definition verify_steps :: "engine \<Rightarrow> request \<Rightarrow> jv \<Rightarrow> jv list \<times> (string + request)" where
  "verify_steps eng request x402Config =
     (if no_payment (paymentHeader request) then
        ([], requestPayment eng request x402Config)
      else
        (case JSON_parse eng (rawPayment (paymentHeader request)) of
           Inl e \<Rightarrow>
             ([], Inr (rejectPayment eng request (JStr ''Invalid JSON in X-Payment-x402 header'')))
         | Inr paymentProof \<Rightarrow> verify_with_facilitator eng request x402Config paymentProof))"

text \<open>The response of the outer \<open>catch\<close> block.\<close>

definition internal_error :: "engine \<Rightarrow> return_overrides" where
  "internal_error eng =
     \<lparr>ResponseCode = 500,
      ResponseError = JSON_stringify eng
        (JObj [(''error'', JStr ''Internal Server Error''),
               (''message'', JStr ''Payment verification failed due to internal error'')]),
      ResponseHeaders = [(''Content-Type'', ''application/json'')]\<rparr>"

definition verifyPayment :: "engine \<Rightarrow> request \<Rightarrow> jv \<Rightarrow> request \<times> jv list" where
  "verifyPayment eng request x402Config =
     (let (tr, res) = verify_steps eng request x402Config
      in (case res of
            Inr request' \<Rightarrow> (request', tr)
          | Inl e \<Rightarrow> (request\<lparr>ReturnOverrides := internal_error eng\<rparr>, tr)))"

text \<open>\<open>handleVerification\<close>: the route's configuration is looked up by the exact
  path and the lower-cased method. Every object read here is truthy when it is read.\<close>

definition handleVerification :: "engine \<Rightarrow> request \<Rightarrow> session \<Rightarrow> request \<times> jv list" where
  "handleVerification eng request session =
     (let path = URL request;
          method = toLowerCase (Method request);
          config = js_or (config_data session) (JObj []);
          routeConfig = (if truthy (jget config ''paths'')
                         then jget (jget config ''paths'') path else JNull)
      in if \<not> truthy routeConfig \<or> \<not> truthy (jget routeConfig method) then (request, [])
         else
           (let methodConfig = jget routeConfig method
            in if \<not> truthy (jget methodConfig ''x402'') then (request, [])
               else verifyPayment eng request (jget methodConfig ''x402'')))"

subsection \<open>Settlement (post-request phase)\<close>

text \<open>\<open>settlePayment\<close>: the trace of host calls, and whether the function returns or
  throws. \<open>parseInt\<close> is called while the payload is built, before the host is
  called. Reading \<open>settleBody.signature\<close> throws when the body is \<open>null\<close>; a
  truthy signature is appended to the text of a log line.\<close>

definition settlePayment ::
  "engine \<Rightarrow> jv \<Rightarrow> jv \<Rightarrow> jv \<Rightarrow> jv \<Rightarrow> jv \<Rightarrow> jv list \<times> (string + unit)" where
  "settlePayment eng transaction network recipient amount token =
     (case parseInt eng amount of
        Inl e \<Rightarrow> ([], Inl e)
      | Inr amountNumber \<Rightarrow>
          (let (tr, settleResult) =
                 callFacilitator eng ''/v1/settle''
                   (JObj [(''network'', network),
                          (''transaction'', transaction),
                          (''recipient'', recipient),
                          (''amount'', amountNumber),
                          (''token'', token)])
           in (tr,
               bnd settleResult (\<lambda>res.
                 case res of
                   Failure err \<Rightarrow> Inr ()
                 | Success settleBody \<Rightarrow>
                     bnd (member settleBody ''signature'') (\<lambda>signature.
                       if truthy signature
                       then bnd (append_value eng signature) (\<lambda>line. Inr ())
                       else Inr ())))))"

text \<open>\<open>handleSettlement\<close>: an exception of \<open>settlePayment\<close> is caught and logged.\<close>

definition handleSettlement :: "engine \<Rightarrow> request \<Rightarrow> request \<times> jv list" where
  "handleSettlement eng request =
     (let transaction = getHeaderValue (Headers request ''X-Payment-Tx'');
          network = getHeaderValue (Headers request ''X-Payment-Network'');
          amount = getHeaderValue (Headers request ''X-Payment-Amount'');
          token = getHeaderValue (Headers request ''X-Payment-Token'');
          recipient = getHeaderValue (Headers request ''X-Payment-Recipient'')
      in if \<not> truthy transaction \<or> transaction = JStr ''unknown'' then (request, [])
         else
           (case settlePayment eng transaction network recipient amount token of
              (tr, Inr u) \<Rightarrow> (request, tr)
            | (tr, Inl e) \<Rightarrow> (request, tr)))"

subsection \<open>The request handler\<close>

text \<open>The function given to \<open>NewProcessRequest\<close>: the phase is read off the
  \<open>X-Payment-Valid\<close> header, \<open>paymentValid && paymentValid[0] === "true"\<close>.\<close>

definition isPostPhase :: "request \<Rightarrow> bool" where
  "isPostPhase request =
     (case Headers request ''X-Payment-Valid'' of
        None \<Rightarrow> False
      | Some h \<Rightarrow> header_truthy (Some h) \<and> header_first h = JStr ''true'')"

definition NewProcessRequest :: "engine \<Rightarrow> request \<Rightarrow> session \<Rightarrow> request \<times> jv list" where
  "NewProcessRequest eng request session =
     (if isPostPhase request then handleSettlement eng request
      else handleVerification eng request session)"


subsection \<open>A small engine for evaluating examples\<close>

text \<open>
  The theorems below hold for every engine. To evaluate the model on concrete requests,
  here is one engine:
  \<^item> \<open>JSON.stringify\<close> as a printer of the values of type \<open>jv\<close> (a property whose
    value is \<open>undefined\<close> is left out, \<open>NaN\<close> prints as \<open>null\<close>, quotes and
    backslashes in strings are escaped);
  \<^item> \<open>JSON.parse\<close> as its inverse on a list of sample values and a SyntaxError on
    every other string;
  \<^item> \<open>ToString\<close> with the TypeError on an object that has a \<open>toString\<close> property
    of its own (in a value that comes out of \<open>JSON.parse\<close> such a property is never
    a function);
  \<^item> \<open>parseInt\<close> as the conversion to a string followed by the reading of a decimal
    numeral;
  \<^item> a host that answers every request with the given reply.
\<close>

definition digit_char :: "nat \<Rightarrow> char" where
  "digit_char d = ''0123456789'' ! d"

function dec_nat :: "nat \<Rightarrow> string" where
  "dec_nat n = (if n < 10 then [digit_char n] else dec_nat (n div 10) @ [digit_char (n mod 10)])"
  by pat_completeness auto
termination
  by (relation "measure id") auto

definition dec_int :: "int \<Rightarrow> string" where
  "dec_int i = (if i < 0 then CHR ''-'' # dec_nat (nat (- i)) else dec_nat (nat i))"

definition quote :: "string \<Rightarrow> string" where
  "quote s =
     CHR 0x22 #
     concat (map (\<lambda>c. if c = CHR 0x22 \<or> c = CHR 0x5C then [CHR 0x5C, c] else [c]) s) @
     [CHR 0x22]"

fun commas :: "string list \<Rightarrow> string" where
  "commas [] = []"
| "commas [x] = x"
| "commas (x # y # ys) = x @ CHR '','' # commas (y # ys)"

primrec render :: "jv \<Rightarrow> string" where
  "render JUndef = ''null''"
| "render JNull = ''null''"
| "render (JBool b) = (if b then ''true'' else ''false'')"
| "render (JNum n) = dec_int n"
| "render JNaN = ''null''"
| "render (JStr s) = quote s"
| "render (JArr xs) = ''['' @ commas (map render xs) @ '']''"
| "render (JObj kvs) =
     ''{'' @
     commas (map (\<lambda>(k, v, r). quote k @ '':'' @ r)
               (filter (\<lambda>(k, v, r). v \<noteq> JUndef)
                  (map (map_prod id (\<lambda>v. (v, render v))) kvs))) @
     ''}''"

definition no_primitive :: string where
  "no_primitive = ''TypeError: Cannot convert object to primitive value''"

fun collect :: "(string + string) list \<Rightarrow> string + string list" where
  "collect [] = Inr []"
| "collect (Inl e # rs) = Inl e"
| "collect (Inr s # rs) = (case collect rs of Inl e \<Rightarrow> Inl e | Inr ss \<Rightarrow> Inr (s # ss))"

primrec demo_ToString :: "jv \<Rightarrow> string + string" where
  "demo_ToString JUndef = Inr ''undefined''"
| "demo_ToString JNull = Inr ''null''"
| "demo_ToString (JBool b) = Inr (if b then ''true'' else ''false'')"
| "demo_ToString (JNum n) = Inr (dec_int n)"
| "demo_ToString JNaN = Inr ''NaN''"
| "demo_ToString (JStr s) = Inr s"
| "demo_ToString (JArr xs) =
     (case collect (map2 (\<lambda>v r. if nullish v then Inr [] else r) xs (map demo_ToString xs)) of
        Inl e \<Rightarrow> Inl e
      | Inr ss \<Rightarrow> Inr (commas ss))"
| "demo_ToString (JObj kvs) =
     (if map_of kvs ''toString'' = None then Inr ''[object Object]'' else Inl no_primitive)"

definition is_digit :: "char \<Rightarrow> bool" where
  "is_digit c = (c \<in> set ''0123456789'')"

definition digits_value :: "string \<Rightarrow> int" where
  "digits_value ds = foldl (\<lambda>a c. 10 * a + (int (of_char c) - 48)) 0 ds"

definition parse_int_text :: "string \<Rightarrow> jv" where
  "parse_int_text s =
     (let t = dropWhile (\<lambda>c. c = CHR '' '') s;
          negative = (take 1 t = ''-'');
          u = (if take 1 t = ''-'' \<or> take 1 t = ''+'' then drop 1 t else t);
          ds = takeWhile is_digit u
      in if ds = [] then JNaN
         else JNum (if negative then - digits_value ds else digits_value ds))"

definition demo_parseInt :: "jv \<Rightarrow> string + jv" where
  "demo_parseInt v = (case demo_ToString v of Inl e \<Rightarrow> Inl e | Inr s \<Rightarrow> Inr (parse_int_text s))"

definition demo_proof :: jv where
  "demo_proof = JObj [(''network'', JStr ''solana-devnet''), (''transaction'', JStr ''TX1'')]"

text \<open>Bodies of answers to the verify call: a valid payment with and without the
  optional fields, and with an empty transaction; an invalid payment with an error, with
  a message only, with neither, and with an error that cannot be converted to a
  string.\<close>

definition demo_valid_body :: jv where
  "demo_valid_body =
     JObj [(''isValid'', JBool True), (''transaction'', JStr ''SIG123''), (''payer'', JStr ''PAYER1'')]"

definition demo_bare_valid_body :: jv where
  "demo_bare_valid_body = JObj [(''isValid'', JBool True)]"

definition demo_empty_tx_body :: jv where
  "demo_empty_tx_body = JObj [(''isValid'', JBool True), (''transaction'', JStr [])]"

definition demo_invalid_body :: jv where
  "demo_invalid_body = JObj [(''isValid'', JBool False), (''error'', JStr ''insufficient amount'')]"

definition demo_message_body :: jv where
  "demo_message_body = JObj [(''isValid'', JBool False), (''message'', JStr ''proof expired'')]"

definition demo_bare_invalid_body :: jv where
  "demo_bare_invalid_body = JObj [(''isValid'', JBool False)]"

definition demo_bad_error_body :: jv where
  "demo_bad_error_body =
     JObj [(''isValid'', JBool False), (''error'', JObj [(''toString'', JNull)])]"

definition demo_settle_body :: jv where
  "demo_settle_body = JObj [(''signature'', JStr ''SETTLED1'')]"

text \<open>The host's answer as the gateway serialises it: the status and the body text.\<close>

definition envelope :: "int \<Rightarrow> string \<Rightarrow> jv" where
  "envelope code body = JObj [(''Code'', JNum code), (''Body'', JStr body)]"

definition demo_values :: "jv list" where
  "demo_values =
     [demo_proof,
      demo_valid_body, demo_bare_valid_body, demo_empty_tx_body,
      demo_invalid_body, demo_message_body, demo_bare_invalid_body, demo_bad_error_body,
      demo_settle_body,
      envelope 200 (render demo_valid_body),
      envelope 200 (render demo_bare_valid_body),
      envelope 200 (render demo_empty_tx_body),
      envelope 200 (render demo_invalid_body),
      envelope 200 (render demo_message_body),
      envelope 200 (render demo_bare_invalid_body),
      envelope 200 (render demo_bad_error_body),
      envelope 200 (render demo_settle_body),
      envelope 200 ''null'',
      envelope 200 ''<html>'',
      envelope 503 ''Service Unavailable'',
      JNull]"

definition syntax_error :: string where
  "syntax_error = ''SyntaxError: Unexpected token''"

fun demo_parse :: "jv \<Rightarrow> string + jv" where
  "demo_parse (JStr s) =
     (case find (\<lambda>v. render v = s) demo_values of
        None \<Rightarrow> Inl syntax_error
      | Some v \<Rightarrow> Inr v)"
| "demo_parse JNull = Inr JNull"
| "demo_parse (JBool b) = Inr (JBool b)"
| "demo_parse (JNum n) = Inr (JNum n)"
| "demo_parse v = Inl syntax_error"

definition demo_engine :: "reply \<Rightarrow> engine" where
  "demo_engine rep =
     \<lparr>JSON_parse = demo_parse,
      JSON_stringify = render,
      parseInt = demo_parseInt,
      ToString = demo_ToString,
      TykMakeHttpRequest = (\<lambda>httpRequestString. rep)\<rparr>"

text \<open>The printer and the parser are evaluated by ground lemmas, not by rewriting.\<close>

declare dec_nat.simps [simp del]
declare render.simps [simp del]
declare demo_parse.simps [simp del]

text \<open>The answers of the host used in the examples: the status 200 with the given body,
  and no answer at all.\<close>

definition answer :: "jv \<Rightarrow> reply" where
  "answer v = Returns (JStr (render v))"

definition ok_answer :: "jv \<Rightarrow> reply" where
  "ok_answer body = answer (envelope 200 (render body))"

definition no_answer :: reply where
  "no_answer = Returns JUndef"

text \<open>A metered route and requests to it.\<close>

definition demo_config :: jv where
  "demo_config =
     JObj [(''network'', JStr ''solana-devnet''),
           (''scheme'', JStr ''exact''),
           (''payTo'', JStr ''4ALzeixKQvVwVX65g9Rk9n7WPBRoMwgwymFXh5EiFpU8''),
           (''feePayer'', JStr ''4ALzeixKQvVwVX65g9Rk9n7WPBRoMwgwymFXh5EiFpU8''),
           (''asset'', JStr ''4zMMC9srt5Ri5X14GAgXhaHii3GnPAEERYPJgZJDncDU''),
           (''maxAmountRequired'', JStr ''100''),
           (''description'', JStr ''Bitcoin price'')]"

definition demo_session :: session where
  "demo_session =
     \<lparr>config_data =
        JObj [(''paths'',
          JObj [(''/market/crypto/bitcoin'',
            JObj [(''get'', JObj [(''x402'', demo_config)])])])]\<rparr>"

text \<open>The verify payload that \<open>demo_proof\<close> and \<open>demo_config\<close> give.\<close>

definition demo_payload :: jv where
  "demo_payload =
     JObj [(''paymentPayload'',
              JObj [(''network'', JStr ''solana-devnet''), (''transaction'', JStr ''TX1'')]),
           (''paymentRequirements'',
              JObj [(''network'', JStr ''solana-devnet''),
                    (''kind'', JStr ''spl-token''),
                    (''recipient'', JStr ''4ALzeixKQvVwVX65g9Rk9n7WPBRoMwgwymFXh5EiFpU8''),
                    (''feePayer'', JStr ''4ALzeixKQvVwVX65g9Rk9n7WPBRoMwgwymFXh5EiFpU8''),
                    (''amount'', JNum 100),
                    (''token'', JStr ''4zMMC9srt5Ri5X14GAgXhaHii3GnPAEERYPJgZJDncDU'')])]"

definition demo_request :: "(string \<times> header) list \<Rightarrow> request" where
  "demo_request hs =
     \<lparr>Headers = map_of hs,
      SetHeaders = Map.empty,
      URL = ''/market/crypto/bitcoin'',
      Method = ''GET'',
      ReturnOverrides = \<lparr>ResponseCode = 0, ResponseError = [], ResponseHeaders = []\<rparr>\<rparr>"

text \<open>A request to the metered route with the sample proof in the documented header.\<close>

definition paying_request :: request where
  "paying_request = demo_request [(''X-Payment-x402'', HList [render demo_proof])]"

subsection \<open>Notions used in the statements\<close>

text \<open>The host's answer to the one call that \<open>callFacilitator\<close> makes.\<close>

definition facilitator_reply :: "engine \<Rightarrow> string \<Rightarrow> jv \<Rightarrow> reply" where
  "facilitator_reply eng endpoint payload =
     TykMakeHttpRequest eng (JSON_stringify eng (http_request eng endpoint payload))"

text \<open>The decoded body of an answer: the host returned a text that is the JSON of an
  object with the status 200, and the body in it is JSON as well.\<close>

definition decoded_body :: "engine \<Rightarrow> reply \<Rightarrow> jv option" where
  "decoded_body eng rep =
     (case rep of
        Throws e \<Rightarrow> None
      | Returns rs \<Rightarrow>
          if truthy rs then
            (case JSON_parse eng rs of
               Inl e \<Rightarrow> None
             | Inr response \<Rightarrow>
                 if \<not> nullish response \<and> jget response ''Code'' = JNum 200 then
                   (case JSON_parse eng (jget response ''Body'') of
                      Inl e \<Rightarrow> None
                    | Inr body \<Rightarrow> Some body)
                 else None)
          else None)"

text \<open>The reason given for an invalid payment: the body's \<open>error\<close> if that is truthy,
  else its \<open>message\<close> if that is truthy, else a fixed text.\<close>

definition rejection_reason :: "jv \<Rightarrow> jv" where
  "rejection_reason verifyBody =
     (if truthy (jget verifyBody ''error'') then jget verifyBody ''error''
      else if truthy (jget verifyBody ''message'') then jget verifyBody ''message''
      else JStr ''Payment not valid'')"

text \<open>What a run of the middleware leaves behind, apart from the request it was given:
  the response overrides, the headers set on the request, and the calls of the host.\<close>

definition outcome :: "request \<times> jv list \<Rightarrow> return_overrides \<times> (string \<rightharpoonup> jv) \<times> jv list" where
  "outcome res = (ReturnOverrides (fst res), SetHeaders (fst res), snd res)"

text \<open>The payment configuration that \<open>handleVerification\<close> finds for a request, if
  the route is metered.\<close>

definition x402_of :: "session \<Rightarrow> request \<Rightarrow> jv option" where
  "x402_of session request =
     (let config = js_or (config_data session) (JObj []);
          routeConfig = (if truthy (jget config ''paths'')
                         then jget (jget config ''paths'') (URL request) else JNull);
          methodConfig = jget routeConfig (toLowerCase (Method request))
      in if truthy routeConfig \<and> truthy methodConfig \<and> truthy (jget methodConfig ''x402'')
         then Some (jget methodConfig ''x402'') else None)"

text \<open>
  The faults that are thrown in the verification sequence and that no handler inside the
  sequence catches, by the place where they are thrown. The text of the fault is \<open>e\<close>.
  \<^item> A property of \<open>null\<close> or \<open>undefined\<close> is read.
  \<^item> While the verify payload is built: the configuration or the parsed proof is
    \<open>null\<close>, or \<open>parseInt\<close> throws.
  \<^item> Inside \<open>callFacilitator\<close>, outside its two \<open>try\<close> blocks: the host call throws,
    the answer decodes to \<open>null\<close>, or the status or the body of an answer with
    another status than 200 cannot be appended to the error text.
  \<^item> On the decoded body: it is \<open>null\<close>, or the payment is not valid and the reason cannot
    be appended to the text of the log line.
\<close>

definition null_read :: "jv \<Rightarrow> string \<Rightarrow> string \<Rightarrow> bool" where
  "null_read v k e = (nullish v \<and> e = type_error k)"

definition payload_fault :: "engine \<Rightarrow> jv \<Rightarrow> jv \<Rightarrow> string \<Rightarrow> bool" where
  "payload_fault eng x402Config paymentProof e =
     (null_read x402Config ''network'' e \<or>
      (\<not> nullish x402Config \<and> null_read paymentProof ''transaction'' e) \<or>
      (\<not> nullish x402Config \<and> \<not> nullish paymentProof \<and>
       parseInt eng (jget x402Config ''maxAmountRequired'') = Inl e))"

definition answer_fault :: "engine \<Rightarrow> reply \<Rightarrow> string \<Rightarrow> bool" where
  "answer_fault eng rep e =
     (case rep of
        Throws e' \<Rightarrow> e' = e
      | Returns rs \<Rightarrow>
          truthy rs \<and>
          (case JSON_parse eng rs of
             Inl syntaxError \<Rightarrow> False
           | Inr response \<Rightarrow>
               null_read response ''Code'' e \<or>
               (\<not> nullish response \<and> truthy (jget response ''Code'') \<and>
                jget response ''Code'' \<noteq> JNum 200 \<and>
                (case append_value eng (jget response ''Code'') of
                   Inl e' \<Rightarrow> e' = e
                 | Inr status \<Rightarrow> append_value eng (jget response ''Body'') = Inl e))))"

definition validity_fault :: "engine \<Rightarrow> jv \<Rightarrow> string \<Rightarrow> bool" where
  "validity_fault eng verifyBody e =
     (null_read verifyBody ''isValid'' e \<or>
      (\<not> nullish verifyBody \<and> \<not> truthy (jget verifyBody ''isValid'') \<and>
       append_value eng (rejection_reason verifyBody) = Inl e))"

definition uncaught_fault :: "engine \<Rightarrow> request \<Rightarrow> jv \<Rightarrow> string \<Rightarrow> bool" where
  "uncaught_fault eng request x402Config e =
     (if no_payment (paymentHeader request) then null_read x402Config ''scheme'' e
      else
        (case JSON_parse eng (rawPayment (paymentHeader request)) of
           Inl syntaxError \<Rightarrow> False
         | Inr paymentProof \<Rightarrow>
             payload_fault eng x402Config paymentProof e \<or>
             (case verify_payload eng x402Config paymentProof of
                Inl e' \<Rightarrow> False
              | Inr payload \<Rightarrow>
                  answer_fault eng (facilitator_reply eng ''/v1/verify'' payload) e \<or>
                  (case decoded_body eng (facilitator_reply eng ''/v1/verify'' payload) of
                     None \<Rightarrow> False
                   | Some verifyBody \<Rightarrow> validity_fault eng verifyBody e))))"

section \<open>Properties\<close>

subsection \<open>Basic facts\<close>

lemma bnd_Inr [simp]: "bnd (Inr x) f = f x"
  by (simp add: bnd_def)

lemma bnd_Inl [simp]: "bnd (Inl e) f = Inl e"
  by (simp add: bnd_def)

lemma member_simps [simp]:
  "nullish v \<Longrightarrow> member v k = Inl (type_error k)"
  "\<not> nullish v \<Longrightarrow> member v k = Inr (jget v k)"
  by (simp_all add: member_def)


lemma append_value_JStr [simp]: "append_value eng (JStr s) = Inr s"
  by (simp add: append_value_def)

text \<open>\<open>||\<close> written out.\<close>

lemma js_or_eq: "js_or a b = (if truthy a then a else b)"
  by (simp add: js_or_def)

lemma js_or_absent [simp]: "js_or JUndef b = b"
  by (simp add: js_or_def)

lemma rejection_reason_eq:
  "js_or (js_or (jget verifyBody ''error'') (jget verifyBody ''message''))
         (JStr ''Payment not valid'') = rejection_reason verifyBody"
  by (simp add: rejection_reason_def js_or_def)


lemma callFacilitator_eq:
  "callFacilitator eng ep p =
     ([http_request eng ep p], read_response eng (facilitator_reply eng ep p))"
  by (simp add: callFacilitator_def facilitator_reply_def Let_def)

lemma invoked_Nil [simp]: "invoked ep [] = False"
  by (simp add: invoked_def)

lemma invoked_http_request [simp]: "invoked ep [http_request eng ep' p] = (ep' = ep)"
  by (simp add: invoked_def http_request_def)

lemma rejectPayment_simps [simp]:
  "ReturnOverrides (rejectPayment eng request reason) =
     \<lparr>ResponseCode = 402,
      ResponseError =
        JSON_stringify eng (JObj [(''error'', JStr ''Payment Invalid''), (''message'', reason)]),
      ResponseHeaders =
        [(''Content-Type'', ''application/json''), (''X-Payment-Status'', ''invalid'')]\<rparr>"
  "SetHeaders (rejectPayment eng request reason) = SetHeaders request"
  by (simp_all add: rejectPayment_def)

text \<open>\<open>callFacilitator\<close> returns \<open>{success: true, data}\<close> exactly for an answer with a
  decoded body.\<close>

lemma read_response_Success_iff:
  "(read_response eng rep = Inr (Success body)) = (decoded_body eng rep = Some body)"
  by (auto simp add: read_response_def decoded_body_def member_def bnd_def
      split: reply.splits sum.splits if_splits)

text \<open>It lets a fault through exactly in the cases of \<open>answer_fault\<close>.\<close>

lemma read_response_Inl_iff: "(read_response eng rep = Inl e) = answer_fault eng rep e"
  by (auto simp add: read_response_def answer_fault_def null_read_def member_def bnd_def
      split: reply.splits sum.splits if_splits)

text \<open>The verify request is built, and so the facilitator is called, unless one of the
  faults of \<open>payload_fault\<close> is thrown.\<close>

lemma verify_payload_Inl_iff:
  "(verify_payload eng x402Config paymentProof = Inl e) =
     payload_fault eng x402Config paymentProof e"
  by (cases "nullish x402Config"; cases "nullish paymentProof")
     (auto simp add: verify_payload_def payload_fault_def null_read_def bnd_def
      split: sum.splits)

lemma check_validity_Inl_iff:
  "(check_validity eng request x402Config verifyBody = Inl e) = validity_fault eng verifyBody e"
  by (cases "nullish verifyBody")
     (auto simp add: check_validity_def validity_fault_def null_read_def rejection_reason_eq
        bnd_def Let_def split: sum.splits)

lemma verify_steps_called:
  assumes "\<not> no_payment (paymentHeader request)"
    and "JSON_parse eng (rawPayment (paymentHeader request)) = Inr paymentProof"
    and "verify_payload eng x402Config paymentProof = Inr payload"
  shows "verify_steps eng request x402Config =
           ([http_request eng ''/v1/verify'' payload],
            bnd (read_response eng (facilitator_reply eng ''/v1/verify'' payload)) (\<lambda>res.
              case res of
                Failure err \<Rightarrow> Inr (rejectPayment eng request (JStr err))
              | Success verifyBody \<Rightarrow> check_validity eng request x402Config verifyBody))"
  using assms
  by (simp add: verify_steps_def verify_with_facilitator_def callFacilitator_eq)

text \<open>A fault leaves the \<open>try\<close> block of \<open>verifyPayment\<close> exactly when it is one of the
  faults listed in \<open>uncaught_fault\<close>.\<close>

lemma verify_steps_Inl_iff:
  "(snd (verify_steps eng request x402Config) = Inl e) =
     uncaught_fault eng request x402Config e"
proof (cases "no_payment (paymentHeader request)")
  case True
  then show ?thesis
    by (cases "nullish x402Config")
       (auto simp add: verify_steps_def uncaught_fault_def requestPayment_def paymentInfo_def
          null_read_def)
next
  case np: False
  show ?thesis
  proof (cases "JSON_parse eng (rawPayment (paymentHeader request))")
    case (Inl syntaxError)
    with np show ?thesis by (simp add: verify_steps_def uncaught_fault_def)
  next
    case parsed: (Inr paymentProof)
    show ?thesis
    proof (cases "verify_payload eng x402Config paymentProof")
      case (Inl e')
      with np parsed show ?thesis
        using verify_payload_Inl_iff [of eng x402Config paymentProof e]
        by (auto simp add: verify_steps_def verify_with_facilitator_def uncaught_fault_def)
    next
      case built: (Inr payload)
      then have nf: "\<not> payload_fault eng x402Config paymentProof e"
        using verify_payload_Inl_iff [of eng x402Config paymentProof e] by simp
      let ?rep = "facilitator_reply eng ''/v1/verify'' payload"
      show ?thesis
      proof (cases "read_response eng ?rep")
        case (Inl e')
        then have "answer_fault eng ?rep e'" by (simp add: read_response_Inl_iff)
        moreover from Inl have "decoded_body eng ?rep = None"
          using read_response_Success_iff [of eng ?rep] by (cases "decoded_body eng ?rep") auto
        moreover from Inl have "answer_fault eng ?rep e = (e' = e)"
          using read_response_Inl_iff [of eng ?rep e] by auto
        ultimately show ?thesis
          using np parsed built nf Inl
          by (simp add: verify_steps_called [OF np parsed built] uncaught_fault_def)
      next
        case (Inr res)
        then have na: "\<not> answer_fault eng ?rep e"
          using read_response_Inl_iff [of eng ?rep e] by simp
        show ?thesis
        proof (cases res)
          case (Failure err)
          with Inr have "decoded_body eng ?rep = None"
            using read_response_Success_iff [of eng ?rep] by (cases "decoded_body eng ?rep") auto
          with np parsed built nf na Inr Failure show ?thesis
            by (simp add: verify_steps_called [OF np parsed built] uncaught_fault_def)
        next
          case (Success verifyBody)
          with Inr have "decoded_body eng ?rep = Some verifyBody"
            by (simp add: read_response_Success_iff)
          with np parsed built nf na Inr Success show ?thesis
            by (simp add: verify_steps_called [OF np parsed built] uncaught_fault_def
                  check_validity_Inl_iff)
        qed
      qed
    qed
  qed
qed

text \<open>\<open>handleVerification\<close> passes a request through when the route is not metered and
  runs \<open>verifyPayment\<close> on the route's configuration, which is truthy, when it is.\<close>

lemma handleVerification_eq:
  "handleVerification eng request session =
     (case x402_of session request of
        None \<Rightarrow> (request, [])
      | Some x402Config \<Rightarrow> verifyPayment eng request x402Config)"
  by (simp add: handleVerification_def x402_of_def Let_def)


lemma handleVerification_metered:
  "x402_of session request = Some x402Config \<Longrightarrow>
   handleVerification eng request session = verifyPayment eng request x402Config"
  by (simp add: handleVerification_eq)

subsection \<open>The calls that each phase can make\<close>

lemma handleSettlement_request: "fst (handleSettlement eng request) = request"
  by (simp add: handleSettlement_def Let_def split: prod.splits sum.splits)

lemma handleSettlement_trace:
  "snd (handleSettlement eng request) =
     (let transaction = getHeaderValue (Headers request ''X-Payment-Tx'')
      in if \<not> truthy transaction \<or> transaction = JStr ''unknown'' then []
         else
           (case parseInt eng (getHeaderValue (Headers request ''X-Payment-Amount'')) of
              Inl e \<Rightarrow> []
            | Inr amountNumber \<Rightarrow>
                [http_request eng ''/v1/settle''
                   (JObj [(''network'', getHeaderValue (Headers request ''X-Payment-Network'')),
                          (''transaction'', transaction),
                          (''recipient'', getHeaderValue (Headers request ''X-Payment-Recipient'')),
                          (''amount'', amountNumber),
                          (''token'', getHeaderValue (Headers request ''X-Payment-Token''))])]))"
  by (simp add: handleSettlement_def settlePayment_def callFacilitator_eq Let_def
           split: prod.splits sum.splits)

lemma verify_with_facilitator_trace:
  "invoked ep (fst (verify_with_facilitator eng request c p)) \<Longrightarrow> ep = ''/v1/verify''"
  by (simp add: verify_with_facilitator_def callFacilitator_eq split: sum.splits)

lemma verify_steps_trace:
  "invoked ep (fst (verify_steps eng request c)) \<Longrightarrow> ep = ''/v1/verify''"
  by (auto simp add: verify_steps_def split: if_splits sum.splits
           dest: verify_with_facilitator_trace)

lemma verifyPayment_trace: "snd (verifyPayment eng request c) = fst (verify_steps eng request c)"
  by (simp add: verifyPayment_def split: prod.splits sum.splits)

lemma handleVerification_trace:
  "invoked ep (snd (handleVerification eng request session)) \<Longrightarrow> ep = ''/v1/verify''"
  by (auto simp add: handleVerification_def Let_def verifyPayment_trace
           split: if_splits dest: verify_steps_trace)

lemma isPostPhase_iff:
  "isPostPhase request =
     (\<exists>xs. Headers request ''X-Payment-Valid'' = Some (HList (''true'' # xs)))"
proof (cases "Headers request ''X-Payment-Valid''")
  case None
  then show ?thesis by (simp add: isPostPhase_def)
next
  case (Some h)
  show ?thesis
  proof (cases h)
    case (HList ys)
    with Some show ?thesis by (cases ys) (auto simp add: isPostPhase_def)
  next
    case (HText s)
    with Some show ?thesis by (cases s) (auto simp add: isPostPhase_def)
  qed
qed

lemma truthy_header_value:
  "truthy (getHeaderValue h) \<Longrightarrow> \<exists>t. getHeaderValue h = JStr t \<and> t \<noteq> []"
proof (cases h)
  case None
  assume "truthy (getHeaderValue h)"
  with None show ?thesis by simp
next
  case (Some x)
  assume t: "truthy (getHeaderValue h)"
  show ?thesis
  proof (cases x)
    case (HList ys)
    with Some t show ?thesis by (cases ys) auto
  next
    case (HText s)
    with Some t show ?thesis by (auto split: if_splits)
  qed
qed

subsection \<open>The outcomes of verification\<close>

text \<open>The response of the outer \<open>catch\<close> block, written out.\<close>

lemma internal_error_eq:
  "internal_error eng =
     \<lparr>ResponseCode = 500,
      ResponseError = JSON_stringify eng
        (JObj [(''error'', JStr ''Internal Server Error''),
               (''message'', JStr ''Payment verification failed due to internal error'')]),
      ResponseHeaders = [(''Content-Type'', ''application/json'')]\<rparr>"
  by (simp add: internal_error_def)

lemma verifyPayment_fault:
  "snd (verify_steps eng request x402Config) = Inl e \<Longrightarrow>
   verifyPayment eng request x402Config =
     (request\<lparr>ReturnOverrides := internal_error eng\<rparr>, fst (verify_steps eng request x402Config))"
  by (cases "verify_steps eng request x402Config") (simp add: verifyPayment_def)

text \<open>Whenever \<open>callFacilitator\<close> returns \<open>{success: false, error}\<close> for the verify
  call, the payment is rejected with that error.\<close>

lemma verification_rejects_failure:
  assumes "\<not> no_payment (paymentHeader request)"
    and "JSON_parse eng (rawPayment (paymentHeader request)) = Inr paymentProof"
    and "verify_payload eng x402Config paymentProof = Inr payload"
    and "read_response eng (facilitator_reply eng ''/v1/verify'' payload) = Inr (Failure err)"
  shows "verifyPayment eng request x402Config =
           (rejectPayment eng request (JStr err), [http_request eng ''/v1/verify'' payload])"
  using assms(4) by (simp add: verifyPayment_def verify_steps_called [OF assms(1-3)])

text \<open>The three ways in which \<open>callFacilitator\<close> gets to \<open>{success: false}\<close> without
  converting a value: no answer, an answer that is not JSON, and a body that is not
  JSON.\<close>

lemma read_response_no_answer:
  "\<not> truthy rs \<Longrightarrow>
   read_response eng (Returns rs) =
     Inr (Failure ''Failed to communicate with facilitator (no response)'')"
  by (simp add: read_response_def)

lemma read_response_bad_answer:
  "truthy rs \<Longrightarrow> JSON_parse eng rs = Inl e \<Longrightarrow>
   read_response eng (Returns rs) =
     Inr (Failure (''Invalid response from facilitator: '' @ e))"
  by (simp add: read_response_def)

lemma read_response_bad_body:
  "truthy rs \<Longrightarrow> JSON_parse eng rs = Inr response \<Longrightarrow> \<not> nullish response \<Longrightarrow>
   jget response ''Code'' = JNum 200 \<Longrightarrow> JSON_parse eng (jget response ''Body'') = Inl e \<Longrightarrow>
   read_response eng (Returns rs) =
     Inr (Failure (''Failed to parse facilitator response body: '' @ e))"
  by (simp add: read_response_def)

text \<open>An invalid payment whose reason can be appended to the log line is rejected with
  that reason.\<close>

lemma invalid_payment_rejected:
  assumes "\<not> no_payment (paymentHeader request)"
    and "JSON_parse eng (rawPayment (paymentHeader request)) = Inr paymentProof"
    and "verify_payload eng x402Config paymentProof = Inr payload"
    and "decoded_body eng (facilitator_reply eng ''/v1/verify'' payload) = Some verifyBody"
    and "\<not> nullish verifyBody"
    and "\<not> truthy (jget verifyBody ''isValid'')"
    and "append_value eng (rejection_reason verifyBody) = Inr line"
  shows "verifyPayment eng request x402Config =
           (rejectPayment eng request (rejection_reason verifyBody),
            [http_request eng ''/v1/verify'' payload])"
proof -
  from assms(4) have "read_response eng (facilitator_reply eng ''/v1/verify'' payload) =
      Inr (Success verifyBody)"
    by (simp add: read_response_Success_iff)
  with assms(5-7) show ?thesis
    by (simp add: verifyPayment_def verify_steps_called [OF assms(1-3)] check_validity_def
          rejection_reason_eq)
qed

text \<open>The outcome of \<open>verifyPayment\<close> depends on the request through its URL, the
  headers already set, the response overrides, and what steps 1 to 3 read from the proof
  header.\<close>

lemma outcome_verifyPayment_cong:
  assumes "URL r1 = URL r2" and "SetHeaders r1 = SetHeaders r2"
    and "ReturnOverrides r1 = ReturnOverrides r2"
    and "no_payment (paymentHeader r1) = no_payment (paymentHeader r2)"
    and "\<not> no_payment (paymentHeader r1) \<Longrightarrow>
         rawPayment (paymentHeader r1) = rawPayment (paymentHeader r2)"
  shows "outcome (verifyPayment eng r1 c) = outcome (verifyPayment eng r2 c)"
proof (cases "no_payment (paymentHeader r1)")
  case True
  with assms show ?thesis
    by (simp add: outcome_def verifyPayment_def verify_steps_def requestPayment_def
          paymentInfo_def bnd_def split: sum.splits)
next
  case False
  with assms have raw: "rawPayment (paymentHeader r1) = rawPayment (paymentHeader r2)"
    and np: "\<not> no_payment (paymentHeader r2)" by simp_all
  from False np raw assms(1-3) show ?thesis
    by (simp add: outcome_def verifyPayment_def verify_steps_def verify_with_facilitator_def
          callFacilitator_eq check_validity_def rejectPayment_def attach_metadata_def
          bnd_def member_def Let_def
        split: sum.splits fac_result.splits)
qed

lemma paymentHeader_spelling:
  assumes "Headers request ''X-Payment-x402'' = None"
    and "Headers request ''X-Payment-X402'' = None"
  shows "paymentHeader (request\<lparr>Headers := (Headers request)(''X-Payment-x402'' \<mapsto> h)\<rparr>) =
           (if header_truthy (Some h) then Some h else None)"
    and "paymentHeader (request\<lparr>Headers := (Headers request)(''X-Payment-X402'' \<mapsto> h)\<rparr>) =
           Some h"
  using assms by (simp_all add: paymentHeader_def)

lemma outcome_handleSettlement:
  "outcome (handleSettlement eng request) =
     (ReturnOverrides request, SetHeaders request, snd (handleSettlement eng request))"
  by (simp add: outcome_def handleSettlement_request)

text \<open>The two names that step 1 reads are interchangeable: a request that carries the
  proof under \<open>X-Payment-x402\<close> and one that carries it under \<open>X-Payment-X402\<close>
  have the same outcome.\<close>

lemma proof_header_two_spellings:
  assumes "Headers request ''X-Payment-x402'' = None"
    and "Headers request ''X-Payment-X402'' = None"
  shows "outcome (NewProcessRequest eng
                    (request\<lparr>Headers := (Headers request)(''X-Payment-x402'' \<mapsto> h)\<rparr>) session) =
         outcome (NewProcessRequest eng
                    (request\<lparr>Headers := (Headers request)(''X-Payment-X402'' \<mapsto> h)\<rparr>) session)"
proof -
  let ?r1 = "request\<lparr>Headers := (Headers request)(''X-Payment-x402'' \<mapsto> h)\<rparr>"
  let ?r2 = "request\<lparr>Headers := (Headers request)(''X-Payment-X402'' \<mapsto> h)\<rparr>"
  have phase: "isPostPhase ?r1 = isPostPhase ?r2"
    by (simp add: isPostPhase_def)
  have settle: "outcome (handleSettlement eng ?r1) = outcome (handleSettlement eng ?r2)"
    by (simp add: outcome_handleSettlement handleSettlement_trace Let_def split: sum.splits)
  have p1: "paymentHeader ?r1 = (if header_truthy (Some h) then Some h else None)"
    and p2: "paymentHeader ?r2 = Some h"
    by (rule paymentHeader_spelling [OF assms])+
  have verify: "outcome (verifyPayment eng ?r1 c) = outcome (verifyPayment eng ?r2 c)" for c
  proof (rule outcome_verifyPayment_cong)
    show "no_payment (paymentHeader ?r1) = no_payment (paymentHeader ?r2)"
      unfolding p1 p2 by (auto simp add: no_payment_def)
    show "rawPayment (paymentHeader ?r1) = rawPayment (paymentHeader ?r2)"
      if "\<not> no_payment (paymentHeader ?r1)"
      using that unfolding p1 p2 by (auto simp add: no_payment_def split: if_splits)
  qed simp_all
  have "outcome (handleVerification eng ?r1 session) =
        outcome (handleVerification eng ?r2 session)"
    using verify by (simp add: handleVerification_def Let_def outcome_def)
  with phase settle show ?thesis by (simp add: NewProcessRequest_def)
qed

subsection \<open>Evaluations in the example engine\<close>

lemma parse_demo_proof: "demo_parse (JStr (render demo_proof)) = Inr demo_proof"
  by code_simp

lemma parse_invalid_json: "demo_parse (JStr ''invalid-json'') = Inl syntax_error"
  by code_simp

lemma parse_empty: "demo_parse (JStr []) = Inl syntax_error"
  by code_simp

lemma parse_null: "demo_parse (JStr ''null'') = Inr JNull"
  by code_simp

lemma parse_html: "demo_parse (JStr ''<html>'') = Inl syntax_error"
  by code_simp

lemma demo_parseInt_100: "demo_parseInt (JStr ''100'') = Inr (JNum 100)"
  by code_simp

lemma demo_parseInt_null: "demo_parseInt JNull = Inr JNaN"
  by code_simp

lemma decoded_valid_body:
  "decoded_body (demo_engine rep) (ok_answer demo_valid_body) = Some demo_valid_body"
  by code_simp

lemma decoded_bare_valid_body:
  "decoded_body (demo_engine rep) (ok_answer demo_bare_valid_body) = Some demo_bare_valid_body"
  by code_simp

lemma decoded_bad_error_body:
  "decoded_body (demo_engine rep) (ok_answer demo_bad_error_body) = Some demo_bad_error_body"
  by code_simp

lemma decoded_null_body:
  "decoded_body (demo_engine rep) (answer (envelope 200 ''null'')) = Some JNull"
  by code_simp

lemma demo_verify_payload:
  "verify_payload (demo_engine rep) demo_config demo_proof = Inr demo_payload"
  by (simp add: verify_payload_def demo_config_def demo_proof_def demo_payload_def
        demo_engine_def js_or_def demo_parseInt_100)

lemma demo_metered: "x402_of demo_session (demo_request hs) = Some demo_config"
  by (simp add: x402_of_def demo_session_def demo_request_def toLowerCase_def lower_char_def
        js_or_def demo_config_def)

lemma demo_present:
  "\<not> no_payment (paymentHeader (demo_request [(''X-Payment-x402'', HList [s])]))"
  by (simp add: no_payment_def paymentHeader_def demo_request_def)

lemma demo_raw:
  "rawPayment (paymentHeader (demo_request [(''X-Payment-x402'', HList [s])])) = JStr s"
  by (simp add: paymentHeader_def demo_request_def)

lemma paying_present: "\<not> no_payment (paymentHeader paying_request)"
  unfolding paying_request_def by (rule demo_present)

lemma paying_parsed:
  "JSON_parse (demo_engine rep) (rawPayment (paymentHeader paying_request)) = Inr demo_proof"
  by (simp add: paying_request_def demo_raw demo_engine_def parse_demo_proof)

lemma paying_metered: "x402_of demo_session paying_request = Some demo_config"
  unfolding paying_request_def by (rule demo_metered)

lemma demo_reply [simp]: "facilitator_reply (demo_engine rep) ep payload = rep"
  by (simp add: facilitator_reply_def demo_engine_def)

text \<open>A settle call whose answer has the body \<open>null\<close> makes \<open>settlePayment\<close> throw.\<close>

lemma demo_settle_throws:
  "snd (settlePayment (demo_engine (answer (envelope 200 ''null'')))
          (JStr ''SIG123'') JNull JNull JNull JNull) = Inl (type_error ''signature'')"
  by code_simp

text \<open>The fallbacks of the reason of a rejection: the message when there is no error,
  the fixed text when there is neither.\<close>

lemma demo_message_fallback:
  "ResponseError (ReturnOverrides (fst (verifyPayment (demo_engine (ok_answer demo_message_body))
      paying_request demo_config))) =
     render (JObj [(''error'', JStr ''Payment Invalid''), (''message'', JStr ''proof expired'')])"
  by code_simp

lemma demo_text_fallback:
  "ResponseError (ReturnOverrides (fst (verifyPayment (demo_engine (ok_answer demo_bare_invalid_body))
      paying_request demo_config))) =
     render (JObj [(''error'', JStr ''Payment Invalid''), (''message'', JStr ''Payment not valid'')])"
  by code_simp

section \<open>The claims\<close>

subsection \<open>Settlement\<close>

text \<open>
  Claim C1. Whatever the settle call does (success, no response, a status other than
  200, an answer that is not JSON, or an exception, which the handler catches), the
  settlement handler returns the request as it received it: it writes neither
  \<open>ResponseCode\<close> nor \<open>ResponseError\<close> nor \<open>ResponseHeaders\<close>, so the response
  overrides after settlement are those before it. The engine, and with it the answer of
  the host, is arbitrary.
\<close>

theorem settlement_leaves_response:
  "fst (handleSettlement eng request) = request \<and>
   ReturnOverrides (fst (handleSettlement eng request)) = ReturnOverrides request"
  by (simp add: handleSettlement_request)

theorem settlement_leaves_response_witness:
  "fst (handleSettlement (demo_engine (answer (envelope 200 ''null'')))
          (demo_request [(''X-Payment-Valid'', HList [''true'']),
                         (''X-Payment-Tx'', HList [''SIG123''])])) =
     demo_request [(''X-Payment-Valid'', HList [''true'']), (''X-Payment-Tx'', HList [''SIG123''])] \<and>
   ReturnOverrides
     (fst (handleSettlement (demo_engine (answer (envelope 200 ''null'')))
             (demo_request [(''X-Payment-Valid'', HList [''true'']),
                            (''X-Payment-Tx'', HList [''SIG123''])]))) =
     ReturnOverrides
       (demo_request [(''X-Payment-Valid'', HList [''true'']), (''X-Payment-Tx'', HList [''SIG123''])])"
  by (rule settlement_leaves_response)

text \<open>
  Claim C7. If a run of the middleware calls \<open>/v1/settle\<close>, then the request carried
  the header \<open>X-Payment-Valid\<close> with first value \<open>"true"\<close>, and the header
  \<open>X-Payment-Tx\<close> gave a transaction reference that is a non-empty string other than
  \<open>"unknown"\<close>. So without the validity flag, or with a missing or unknown transaction
  reference, there is no settle call.
\<close>

theorem settle_only_when_verified:
  assumes "invoked ''/v1/settle'' (snd (NewProcessRequest eng request session))"
  shows "(\<exists>xs. Headers request ''X-Payment-Valid'' = Some (HList (''true'' # xs))) \<and>
         (\<exists>t. getHeaderValue (Headers request ''X-Payment-Tx'') = JStr t \<and>
              t \<noteq> [] \<and> t \<noteq> ''unknown'')"
proof (cases "isPostPhase request")
  case False
  with assms have "invoked ''/v1/settle'' (snd (handleVerification eng request session))"
    by (simp add: NewProcessRequest_def)
  then have "''/v1/settle'' = ''/v1/verify''" by (rule handleVerification_trace)
  then show ?thesis by simp
next
  case True
  with assms have inv: "invoked ''/v1/settle'' (snd (handleSettlement eng request))"
    by (simp add: NewProcessRequest_def)
  let ?t = "getHeaderValue (Headers request ''X-Payment-Tx'')"
  from inv have tr: "truthy ?t" and unk: "?t \<noteq> JStr ''unknown''"
    by (auto simp add: handleSettlement_trace Let_def split: if_splits)
  from truthy_header_value [OF tr] obtain t where "?t = JStr t" "t \<noteq> []" by blast
  with unk True show ?thesis by (simp add: isPostPhase_iff)
qed

theorem settle_only_when_verified_witness:
  "invoked ''/v1/settle''
     (snd (NewProcessRequest (demo_engine (answer (envelope 200 (render demo_settle_body))))
        (demo_request [(''X-Payment-Valid'', HList [''true'']),
                       (''X-Payment-Tx'', HList [''SIG123''])])
        demo_session)) \<and>
   (\<exists>xs. Headers (demo_request [(''X-Payment-Valid'', HList [''true'']),
                                 (''X-Payment-Tx'', HList [''SIG123''])]) ''X-Payment-Valid'' =
           Some (HList (''true'' # xs))) \<and>
   (\<exists>t. getHeaderValue
          (Headers (demo_request [(''X-Payment-Valid'', HList [''true'']),
                                  (''X-Payment-Tx'', HList [''SIG123''])]) ''X-Payment-Tx'') =
           JStr t \<and> t \<noteq> [] \<and> t \<noteq> ''unknown'')"
proof -
  let ?E = "demo_engine (answer (envelope 200 (render demo_settle_body)))"
  let ?R = "demo_request [(''X-Payment-Valid'', HList [''true'']),
                          (''X-Payment-Tx'', HList [''SIG123''])]"
  have h: "invoked ''/v1/settle'' (snd (NewProcessRequest ?E ?R demo_session))"
    by (simp add: NewProcessRequest_def isPostPhase_def handleSettlement_trace demo_request_def
          demo_engine_def demo_parseInt_null)
  from settle_only_when_verified [OF h] h show ?thesis by simp
qed

text \<open>
  Claim C10. A request whose \<open>X-Payment-Valid\<close> header has the first value
  \<open>"true"\<close>, whoever put it there, is handled by the settlement handler alone: the
  request comes back unchanged, so no 402 or 500 response is written, and \<open>/v1/verify\<close>
  is not called, whatever the route's configuration and the other headers are.
\<close>

theorem valid_header_forces_settlement:
  assumes "Headers request ''X-Payment-Valid'' = Some (HList (''true'' # xs))"
  shows "NewProcessRequest eng request session = handleSettlement eng request \<and>
         fst (NewProcessRequest eng request session) = request \<and>
         \<not> invoked ''/v1/verify'' (snd (NewProcessRequest eng request session))"
proof -
  from assms have "isPostPhase request" by (simp add: isPostPhase_iff)
  then have eq: "NewProcessRequest eng request session = handleSettlement eng request"
    by (simp add: NewProcessRequest_def)
  have "\<not> invoked ''/v1/verify'' (snd (handleSettlement eng request))"
    by (simp add: handleSettlement_trace Let_def split: sum.splits)
  with eq show ?thesis by (simp add: handleSettlement_request)
qed

theorem valid_header_forces_settlement_witness:
  "Headers (demo_request [(''X-Payment-Valid'', HList [''true'']),
                          (''X-Payment-x402'', HList [''invalid-json''])]) ''X-Payment-Valid'' =
     Some (HList (''true'' # [])) \<and>
   fst (NewProcessRequest (demo_engine no_answer)
          (demo_request [(''X-Payment-Valid'', HList [''true'']),
                         (''X-Payment-x402'', HList [''invalid-json''])]) demo_session) =
     demo_request [(''X-Payment-Valid'', HList [''true'']),
                   (''X-Payment-x402'', HList [''invalid-json''])] \<and>
   \<not> invoked ''/v1/verify'' (snd (NewProcessRequest (demo_engine no_answer)
          (demo_request [(''X-Payment-Valid'', HList [''true'']),
                         (''X-Payment-x402'', HList [''invalid-json''])]) demo_session))"
proof -
  let ?R = "demo_request [(''X-Payment-Valid'', HList [''true'']),
                          (''X-Payment-x402'', HList [''invalid-json''])]"
  have h: "Headers ?R ''X-Payment-Valid'' = Some (HList (''true'' # []))"
    by (simp add: demo_request_def)
  from valid_header_forces_settlement [OF h, where eng = "demo_engine no_answer"
      and session = demo_session] h
  show ?thesis by blast
qed

subsection \<open>Verification: a malformed proof\<close>

text \<open>
  Claim C4. A request to a metered route whose proof header is present and whose first
  value \<open>JSON.parse\<close> rejects is answered with the status 402 and
  \<open>X-Payment-Status: invalid\<close>, and the run makes no call of the host at all,
  whatever the host would have answered.
\<close>

theorem malformed_proof_rejected:
  assumes "x402_of session request = Some x402Config"
    and "\<not> no_payment (paymentHeader request)"
    and "JSON_parse eng (rawPayment (paymentHeader request)) = Inl e"
  shows "ResponseCode (ReturnOverrides (fst (handleVerification eng request session))) = 402 \<and>
         map_of (ResponseHeaders (ReturnOverrides (fst (handleVerification eng request session))))
           ''X-Payment-Status'' = Some ''invalid'' \<and>
         snd (handleVerification eng request session) = []"
  using assms(2,3) unfolding handleVerification_metered [OF assms(1)]
  by (simp add: verifyPayment_def verify_steps_def)

theorem malformed_proof_rejected_witness:
  "x402_of demo_session (demo_request [(''X-Payment-x402'', HList [''invalid-json''])]) =
     Some demo_config \<and>
   \<not> no_payment (paymentHeader (demo_request [(''X-Payment-x402'', HList [''invalid-json''])])) \<and>
   JSON_parse (demo_engine no_answer)
     (rawPayment (paymentHeader (demo_request [(''X-Payment-x402'', HList [''invalid-json''])]))) =
     Inl syntax_error \<and>
   ResponseCode (ReturnOverrides (fst (handleVerification (demo_engine no_answer)
     (demo_request [(''X-Payment-x402'', HList [''invalid-json''])]) demo_session))) = 402 \<and>
   map_of (ResponseHeaders (ReturnOverrides (fst (handleVerification (demo_engine no_answer)
     (demo_request [(''X-Payment-x402'', HList [''invalid-json''])]) demo_session))))
     ''X-Payment-Status'' = Some ''invalid'' \<and>
   snd (handleVerification (demo_engine no_answer)
     (demo_request [(''X-Payment-x402'', HList [''invalid-json''])]) demo_session) = []"
proof -
  let ?R = "demo_request [(''X-Payment-x402'', HList [''invalid-json''])]"
  have h0: "x402_of demo_session ?R = Some demo_config" by (rule demo_metered)
  have h1: "\<not> no_payment (paymentHeader ?R)" by (rule demo_present)
  have h2: "JSON_parse (demo_engine no_answer) (rawPayment (paymentHeader ?R)) = Inl syntax_error"
    by (simp add: demo_raw demo_engine_def parse_invalid_json)
  from malformed_proof_rejected [OF h0 h1 h2] h0 h1 h2 show ?thesis by simp
qed

subsection \<open>Verification: no proof\<close>




subsection \<open>Verification: a valid payment\<close>

text \<open>
  Claim C5, as amended. When the answer to the verify call decodes to a body whose
  \<open>isValid\<close> is \<open>true\<close>, verification writes no response (the request goes on to the
  upstream) and sets exactly seven headers on the request: \<open>X-Payment-Valid\<close> to
  \<open>"true"\<close>, \<open>X-Payment-Network\<close> to the configuration's \<open>network\<close>, \<open>X-Payment-Tx\<close>
  to the body's \<open>transaction\<close> when that is truthy and to \<open>"unknown"\<close> when it is
  absent or otherwise falsy, \<open>X-Payment-Payer\<close> to the body's \<open>payer\<close> when that is
  truthy and to \<open>"anonymous"\<close> when it is absent or otherwise falsy, and
  \<open>X-Payment-Amount\<close>, \<open>X-Payment-Token\<close>, \<open>X-Payment-Recipient\<close> to the
  configuration's \<open>maxAmountRequired\<close>, \<open>asset\<close>, \<open>payTo\<close>.
\<close>

theorem valid_payment_metadata:
  assumes "\<not> no_payment (paymentHeader request)"
    and "JSON_parse eng (rawPayment (paymentHeader request)) = Inr paymentProof"
    and "verify_payload eng x402Config paymentProof = Inr payload"
    and "decoded_body eng (facilitator_reply eng ''/v1/verify'' payload) = Some verifyBody"
    and "jget verifyBody ''isValid'' = JBool True"
  shows "ReturnOverrides (fst (verifyPayment eng request x402Config)) = ReturnOverrides request \<and>
         SetHeaders (fst (verifyPayment eng request x402Config)) =
           (SetHeaders request)
             (''X-Payment-Valid'' \<mapsto> JStr ''true'',
              ''X-Payment-Network'' \<mapsto> jget x402Config ''network'',
              ''X-Payment-Tx'' \<mapsto>
                 (if truthy (jget verifyBody ''transaction'')
                  then jget verifyBody ''transaction'' else JStr ''unknown''),
              ''X-Payment-Payer'' \<mapsto>
                 (if truthy (jget verifyBody ''payer'')
                  then jget verifyBody ''payer'' else JStr ''anonymous''),
              ''X-Payment-Amount'' \<mapsto> jget x402Config ''maxAmountRequired'',
              ''X-Payment-Token'' \<mapsto> jget x402Config ''asset'',
              ''X-Payment-Recipient'' \<mapsto> jget x402Config ''payTo'')"
proof -
  from assms(5) have "\<not> nullish verifyBody" by (cases verifyBody) simp_all
  moreover from assms(4)
  have "read_response eng (facilitator_reply eng ''/v1/verify'' payload) = Inr (Success verifyBody)"
    by (simp add: read_response_Success_iff)
  ultimately have "verifyPayment eng request x402Config =
          (attach_metadata request x402Config verifyBody,
           [http_request eng ''/v1/verify'' payload])"
    using assms(5)
    by (simp add: verifyPayment_def verify_steps_called [OF assms(1-3)] check_validity_def)
  then show ?thesis by (simp add: attach_metadata_def js_or_eq)
qed

theorem valid_payment_metadata_witness:
  "\<not> no_payment (paymentHeader paying_request) \<and>
   JSON_parse (demo_engine (ok_answer demo_bare_valid_body))
     (rawPayment (paymentHeader paying_request)) = Inr demo_proof \<and>
   verify_payload (demo_engine (ok_answer demo_bare_valid_body)) demo_config demo_proof =
     Inr demo_payload \<and>
   decoded_body (demo_engine (ok_answer demo_bare_valid_body))
     (facilitator_reply (demo_engine (ok_answer demo_bare_valid_body)) ''/v1/verify'' demo_payload) =
     Some demo_bare_valid_body \<and>
   jget demo_bare_valid_body ''isValid'' = JBool True \<and>
   jget demo_bare_valid_body ''transaction'' = JUndef \<and>
   jget demo_bare_valid_body ''payer'' = JUndef \<and>
   SetHeaders (fst (verifyPayment (demo_engine (ok_answer demo_bare_valid_body))
     paying_request demo_config)) ''X-Payment-Valid'' = Some (JStr ''true'') \<and>
   SetHeaders (fst (verifyPayment (demo_engine (ok_answer demo_bare_valid_body))
     paying_request demo_config)) ''X-Payment-Tx'' = Some (JStr ''unknown'') \<and>
   SetHeaders (fst (verifyPayment (demo_engine (ok_answer demo_bare_valid_body))
     paying_request demo_config)) ''X-Payment-Payer'' = Some (JStr ''anonymous'') \<and>
   jget demo_valid_body ''isValid'' = JBool True \<and>
   SetHeaders (fst (verifyPayment (demo_engine (ok_answer demo_valid_body))
     paying_request demo_config)) ''X-Payment-Tx'' = Some (JStr ''SIG123'') \<and>
   SetHeaders (fst (verifyPayment (demo_engine (ok_answer demo_valid_body))
     paying_request demo_config)) ''X-Payment-Payer'' = Some (JStr ''PAYER1'')"
proof -
  let ?E = "demo_engine (ok_answer demo_bare_valid_body)"
  let ?F = "demo_engine (ok_answer demo_valid_body)"
  have h1: "\<not> no_payment (paymentHeader paying_request)" by (rule paying_present)
  have h2: "JSON_parse ?E (rawPayment (paymentHeader paying_request)) = Inr demo_proof"
    by (rule paying_parsed)
  have h3: "verify_payload ?E demo_config demo_proof = Inr demo_payload"
    by (rule demo_verify_payload)
  have h4: "decoded_body ?E (facilitator_reply ?E ''/v1/verify'' demo_payload) =
              Some demo_bare_valid_body"
    by (simp add: decoded_bare_valid_body)
  have h5: "jget demo_bare_valid_body ''isValid'' = JBool True"
    and a1: "jget demo_bare_valid_body ''transaction'' = JUndef"
    and a2: "jget demo_bare_valid_body ''payer'' = JUndef"
    by (simp_all add: demo_bare_valid_body_def)
  have g2: "JSON_parse ?F (rawPayment (paymentHeader paying_request)) = Inr demo_proof"
    by (rule paying_parsed)
  have g3: "verify_payload ?F demo_config demo_proof = Inr demo_payload"
    by (rule demo_verify_payload)
  have g4: "decoded_body ?F (facilitator_reply ?F ''/v1/verify'' demo_payload) =
              Some demo_valid_body"
    by (simp add: decoded_valid_body)
  have g5: "jget demo_valid_body ''isValid'' = JBool True"
    and b1: "jget demo_valid_body ''transaction'' = JStr ''SIG123''"
    and b2: "jget demo_valid_body ''payer'' = JStr ''PAYER1''"
    by (simp_all add: demo_valid_body_def)
  from valid_payment_metadata [OF h1 h2 h3 h4 h5] valid_payment_metadata [OF h1 g2 g3 g4 g5]
    h1 h2 h3 h4 h5 a1 a2 g5 b1 b2
  show ?thesis by simp
qed

text \<open>
  Claim C5 as stated fails in two places. It lists six headers as exactly those that are
  set; the code sets a seventh, \<open>X-Payment-Network\<close>. And it gives the sentinel for an
  absent field only; the code also gives it for a field that is there and falsy, here a
  transaction that is the empty string.
\<close>

theorem carried_headers_counterexample:
  "SetHeaders paying_request ''X-Payment-Network'' = None \<and>
   SetHeaders (fst (verifyPayment (demo_engine (ok_answer demo_valid_body))
     paying_request demo_config)) ''X-Payment-Network'' = Some (JStr ''solana-devnet'') \<and>
   ''X-Payment-Network'' \<notin>
     set [''X-Payment-Valid'', ''X-Payment-Tx'', ''X-Payment-Payer'',
          ''X-Payment-Amount'', ''X-Payment-Token'', ''X-Payment-Recipient''] \<and>
   jget demo_empty_tx_body ''isValid'' = JBool True \<and>
   jget demo_empty_tx_body ''transaction'' = JStr [] \<and>
   SetHeaders (fst (verifyPayment (demo_engine (ok_answer demo_empty_tx_body))
     paying_request demo_config)) ''X-Payment-Tx'' = Some (JStr ''unknown'')"
  by code_simp

subsection \<open>Verification: answers that the code does not turn into a rejection\<close>

text \<open>
  Claim C2 says that a verify call that fails, also by a body that cannot be decoded as
  the expected structure, is answered with 402 and never with 500. The code rejects with
  402 whenever \<open>callFacilitator\<close> returns \<open>{success: false}\<close> (lemma
  \<open>verification_rejects_failure\<close>), and also for a body without \<open>isValid\<close>. It does not
  for the body \<open>null\<close>: take a request to a metered route with a proof that parses, for
  which the verify request is sent, and let the answer have the status 200 and a body
  that decodes to \<open>null\<close>. Reading \<open>verifyBody.isValid\<close> throws, and the response is
  the 500 of the outer \<open>catch\<close> block.
\<close>

theorem null_verify_body_internal_error:
  assumes "x402_of session request = Some x402Config"
    and "\<not> no_payment (paymentHeader request)"
    and "JSON_parse eng (rawPayment (paymentHeader request)) = Inr paymentProof"
    and "verify_payload eng x402Config paymentProof = Inr payload"
    and "decoded_body eng (facilitator_reply eng ''/v1/verify'' payload) = Some JNull"
  shows "ReturnOverrides (fst (handleVerification eng request session)) =
           \<lparr>ResponseCode = 500,
            ResponseError = JSON_stringify eng
              (JObj [(''error'', JStr ''Internal Server Error''),
                     (''message'', JStr ''Payment verification failed due to internal error'')]),
            ResponseHeaders = [(''Content-Type'', ''application/json'')]\<rparr>"
proof -
  from assms(5)
  have "read_response eng (facilitator_reply eng ''/v1/verify'' payload) = Inr (Success JNull)"
    by (simp add: read_response_Success_iff)
  then have "snd (verify_steps eng request x402Config) = Inl (type_error ''isValid'')"
    by (simp add: verify_steps_called [OF assms(2-4)] check_validity_def)
  from verifyPayment_fault [OF this] show ?thesis
    unfolding handleVerification_metered [OF assms(1)] by (simp add: internal_error_eq)
qed

theorem null_verify_body_internal_error_witness:
  "x402_of demo_session paying_request = Some demo_config \<and>
   \<not> no_payment (paymentHeader paying_request) \<and>
   JSON_parse (demo_engine (answer (envelope 200 ''null'')))
     (rawPayment (paymentHeader paying_request)) = Inr demo_proof \<and>
   verify_payload (demo_engine (answer (envelope 200 ''null''))) demo_config demo_proof =
     Inr demo_payload \<and>
   decoded_body (demo_engine (answer (envelope 200 ''null'')))
     (facilitator_reply (demo_engine (answer (envelope 200 ''null''))) ''/v1/verify'' demo_payload) =
     Some JNull \<and>
   ResponseCode (ReturnOverrides (fst (handleVerification
     (demo_engine (answer (envelope 200 ''null''))) paying_request demo_session))) = 500"
proof -
  let ?E = "demo_engine (answer (envelope 200 ''null''))"
  have h0: "x402_of demo_session paying_request = Some demo_config" by (rule paying_metered)
  have h1: "\<not> no_payment (paymentHeader paying_request)" by (rule paying_present)
  have h2: "JSON_parse ?E (rawPayment (paymentHeader paying_request)) = Inr demo_proof"
    by (rule paying_parsed)
  have h3: "verify_payload ?E demo_config demo_proof = Inr demo_payload"
    by (rule demo_verify_payload)
  have h4: "decoded_body ?E (facilitator_reply ?E ''/v1/verify'' demo_payload) = Some JNull"
    by (simp add: decoded_null_body)
  from null_verify_body_internal_error [OF h0 h1 h2 h3 h4] h0 h1 h2 h3 h4 show ?thesis by simp
qed

text \<open>
  Claim C6 says that every answer with \<open>isValid\<close> false is rejected with 402 and the
  reason that the facilitator gives. The code does so whenever the reason can be appended
  to the text of its log line (lemma \<open>invalid_payment_rejected\<close>). When it cannot, as
  for an \<open>error\<close> that is an object with a \<open>toString\<close> property that is no function,
  building the log line throws before \<open>rejectPayment\<close> is reached, and the response is
  the 500 of the outer \<open>catch\<close> block.
\<close>

theorem unprintable_reason_internal_error:
  assumes "\<not> no_payment (paymentHeader request)"
    and "JSON_parse eng (rawPayment (paymentHeader request)) = Inr paymentProof"
    and "verify_payload eng x402Config paymentProof = Inr payload"
    and "decoded_body eng (facilitator_reply eng ''/v1/verify'' payload) = Some verifyBody"
    and "jget verifyBody ''isValid'' = JBool False"
    and "append_value eng (rejection_reason verifyBody) = Inl e"
  shows "ReturnOverrides (fst (verifyPayment eng request x402Config)) =
           \<lparr>ResponseCode = 500,
            ResponseError = JSON_stringify eng
              (JObj [(''error'', JStr ''Internal Server Error''),
                     (''message'', JStr ''Payment verification failed due to internal error'')]),
            ResponseHeaders = [(''Content-Type'', ''application/json'')]\<rparr>"
proof -
  from assms(5) have nn: "\<not> nullish verifyBody" by (cases verifyBody) simp_all
  from assms(4)
  have "read_response eng (facilitator_reply eng ''/v1/verify'' payload) = Inr (Success verifyBody)"
    by (simp add: read_response_Success_iff)
  with nn assms(5,6) have "snd (verify_steps eng request x402Config) = Inl e"
    by (simp add: verify_steps_called [OF assms(1-3)] check_validity_def rejection_reason_eq)
  from verifyPayment_fault [OF this] show ?thesis by (simp add: internal_error_eq)
qed

theorem unprintable_reason_internal_error_witness:
  "\<not> no_payment (paymentHeader paying_request) \<and>
   JSON_parse (demo_engine (ok_answer demo_bad_error_body))
     (rawPayment (paymentHeader paying_request)) = Inr demo_proof \<and>
   verify_payload (demo_engine (ok_answer demo_bad_error_body)) demo_config demo_proof =
     Inr demo_payload \<and>
   decoded_body (demo_engine (ok_answer demo_bad_error_body))
     (facilitator_reply (demo_engine (ok_answer demo_bad_error_body)) ''/v1/verify'' demo_payload) =
     Some demo_bad_error_body \<and>
   jget demo_bad_error_body ''isValid'' = JBool False \<and>
   rejection_reason demo_bad_error_body = JObj [(''toString'', JNull)] \<and>
   append_value (demo_engine (ok_answer demo_bad_error_body))
     (rejection_reason demo_bad_error_body) = Inl no_primitive \<and>
   ResponseCode (ReturnOverrides (fst (verifyPayment (demo_engine (ok_answer demo_bad_error_body))
     paying_request demo_config))) = 500"
proof -
  let ?E = "demo_engine (ok_answer demo_bad_error_body)"
  have h1: "\<not> no_payment (paymentHeader paying_request)" by (rule paying_present)
  have h2: "JSON_parse ?E (rawPayment (paymentHeader paying_request)) = Inr demo_proof"
    by (rule paying_parsed)
  have h3: "verify_payload ?E demo_config demo_proof = Inr demo_payload"
    by (rule demo_verify_payload)
  have h4: "decoded_body ?E (facilitator_reply ?E ''/v1/verify'' demo_payload) =
              Some demo_bad_error_body"
    by (simp add: decoded_bad_error_body)
  have h5: "jget demo_bad_error_body ''isValid'' = JBool False"
    by (simp add: demo_bad_error_body_def)
  have r: "rejection_reason demo_bad_error_body = JObj [(''toString'', JNull)]"
    by (simp add: rejection_reason_def demo_bad_error_body_def)
  have h6: "append_value ?E (rejection_reason demo_bad_error_body) = Inl no_primitive"
    by (simp add: r append_value_def demo_engine_def)
  from unprintable_reason_internal_error [OF h1 h2 h3 h4 h5 h6] h1 h2 h3 h4 h5 r h6
  show ?thesis by simp
qed

subsection \<open>Verification: faults\<close>

text \<open>
  Claim C8, as amended. For every fault that is thrown in the verification sequence and
  that no handler inside the sequence catches, whatever its text \<open>e\<close> is, the response
  is the status 500 with the body
  \<open>{error: "Internal Server Error", message: "Payment verification failed due to
  internal error"}\<close> and the one header \<open>Content-Type: application/json\<close>, and no header
  is set on the request; the response does not depend on \<open>e\<close>. These are all the faults
  of the sequence but the failures of \<open>JSON.parse\<close> on the proof header, on the
  facilitator's answer and on the body in that answer (lemma \<open>verify_steps_Inl_iff\<close>).
\<close>

theorem internal_fault_response:
  assumes "uncaught_fault eng request x402Config e"
  shows "ReturnOverrides (fst (verifyPayment eng request x402Config)) =
           \<lparr>ResponseCode = 500,
            ResponseError = JSON_stringify eng
              (JObj [(''error'', JStr ''Internal Server Error''),
                     (''message'', JStr ''Payment verification failed due to internal error'')]),
            ResponseHeaders = [(''Content-Type'', ''application/json'')]\<rparr> \<and>
         SetHeaders (fst (verifyPayment eng request x402Config)) = SetHeaders request"
proof -
  from assms have "snd (verify_steps eng request x402Config) = Inl e"
    by (simp add: verify_steps_Inl_iff)
  from verifyPayment_fault [OF this] show ?thesis by (simp add: internal_error_eq)
qed

theorem internal_fault_response_witness:
  "uncaught_fault (demo_engine no_answer)
     (demo_request [(''X-Payment-x402'', HList [''null''])]) demo_config
     (type_error ''transaction'') \<and>
   uncaught_fault (demo_engine (Throws ''Error: connection reset'')) paying_request demo_config
     ''Error: connection reset'' \<and>
   ReturnOverrides (fst (verifyPayment (demo_engine no_answer)
     (demo_request [(''X-Payment-x402'', HList [''null''])]) demo_config)) =
     \<lparr>ResponseCode = 500,
      ResponseError = render
        (JObj [(''error'', JStr ''Internal Server Error''),
               (''message'', JStr ''Payment verification failed due to internal error'')]),
      ResponseHeaders = [(''Content-Type'', ''application/json'')]\<rparr> \<and>
   ReturnOverrides (fst (verifyPayment (demo_engine (Throws ''Error: connection reset''))
     paying_request demo_config)) =
     \<lparr>ResponseCode = 500,
      ResponseError = render
        (JObj [(''error'', JStr ''Internal Server Error''),
               (''message'', JStr ''Payment verification failed due to internal error'')]),
      ResponseHeaders = [(''Content-Type'', ''application/json'')]\<rparr>"
proof -
  let ?R = "demo_request [(''X-Payment-x402'', HList [''null''])]"
  let ?T = "demo_engine (Throws ''Error: connection reset'')"
  have h: "uncaught_fault (demo_engine no_answer) ?R demo_config (type_error ''transaction'')"
    using demo_present [of "''null''"]
    by (simp add: uncaught_fault_def demo_raw demo_engine_def parse_null payload_fault_def
          null_read_def demo_config_def)
  have g: "uncaught_fault ?T paying_request demo_config ''Error: connection reset''"
    using paying_present paying_parsed [of "Throws ''Error: connection reset''"]
      demo_verify_payload [of "Throws ''Error: connection reset''"]
    by (simp add: uncaught_fault_def answer_fault_def)
  have str: "JSON_stringify (demo_engine rep) = render" for rep by (simp add: demo_engine_def)
  from internal_fault_response [OF h] internal_fault_response [OF g] h g str
  show ?thesis by simp
qed

text \<open>
  Claim C8 as stated fails for the faults that are caught inside the sequence. Here the
  facilitator answers with the status 200 and a body that is not JSON: \<open>JSON.parse\<close>
  throws inside \<open>callFacilitator\<close>, which catches the fault and puts its text into the
  error that \<open>verifyPayment\<close> hands to \<open>rejectPayment\<close>. The response is 402, and the
  text of the fault is part of the message that the client sees.
\<close>

theorem caught_fault_counterexample:
  "JSON_parse (demo_engine (answer (envelope 200 ''<html>''))) (JStr ''<html>'') =
     Inl syntax_error \<and>
   ResponseCode (ReturnOverrides (fst (verifyPayment (demo_engine (answer (envelope 200 ''<html>'')))
     paying_request demo_config))) = 402 \<and>
   ResponseError (ReturnOverrides (fst (verifyPayment (demo_engine (answer (envelope 200 ''<html>'')))
     paying_request demo_config))) =
     render (JObj [(''error'', JStr ''Payment Invalid''),
                   (''message'',
                      JStr (''Failed to parse facilitator response body: '' @ syntax_error))])"
  by code_simp

subsection \<open>Verification: the name of the proof header\<close>



text \<open>The same on the requests as the gateway would hand them over: the proof under the
  lower-case name is not found, the proof under the documented name is verified.\<close>

lemma header_casing_example:
  "ResponseCode (ReturnOverrides (fst (NewProcessRequest
       (demo_engine (ok_answer demo_valid_body))
       (demo_request [(''X-Payment-x402'', HList [render demo_proof])]) demo_session))) = 0 \<and>
   ResponseCode (ReturnOverrides (fst (NewProcessRequest
       (demo_engine (ok_answer demo_valid_body))
       (demo_request [(''x-payment-x402'', HList [render demo_proof])]) demo_session))) = 402 \<and>
   map_of (ResponseHeaders (ReturnOverrides (fst (NewProcessRequest
       (demo_engine (ok_answer demo_valid_body))
       (demo_request [(''x-payment-x402'', HList [render demo_proof])]) demo_session))))
     ''X-Payment-Status'' = Some ''required''"
  by code_simp

end
